theory Spec2Isabelle
  imports Main
begin

chapter \<open>Speech rule engine: Spanish numbers, tree annotation, symbol registry\<close>

text \<open>
  A shallow embedding of three modules of the speech rule engine:
  \<^item> \<^verbatim>\<open>ts/l10n/numbers_es.ts\<close>: Spanish cardinals and ordinals;
  \<^item> \<^verbatim>\<open>src/semantic_tree/semantic_annotator.js\<close>: the bottom-up annotator and the
    top-down visitor;
  \<^item> \<^verbatim>\<open>ts/semantic_tree/semantic_attr.ts\<close>: the fence tables, the meaning map and its
    initialisation.
  All definitions come first, the lemmas and theorems follow. A name of the source that
  ends in an underscore (\<^verbatim>\<open>onesNumbers_\<close>, \<^verbatim>\<open>tensToWords_\<close>) is written without it.
\<close>

section \<open>JavaScript values used by the sources\<close>

text \<open>
  Strings of \<^verbatim>\<open>numbers_es.ts\<close> are sequences of UTF-16 code units. Every code unit that
  occurs there is below 256, so a code unit is a \<^typ>\<open>char\<close> and a string is a
  \<^typ>\<open>string\<close>; the two accented letters are written by their code.
\<close>

abbreviation e_acute :: char where "e_acute \<equiv> CHR 0xE9"
abbreviation o_acute :: char where "o_acute \<equiv> CHR 0xF3"

text \<open>
  Reading an array outside its bounds yields \<^verbatim>\<open>undefined\<close> in JavaScript, here
  \<^const>\<open>None\<close>. The index is an integer, since the source computes \<^verbatim>\<open>num - 1\<close>
  with \<^verbatim>\<open>num = 0\<close>.
\<close>

definition js_index :: "'a list \<Rightarrow> int \<Rightarrow> 'a option" where
  "js_index xs i = (if 0 \<le> i \<and> i < int (length xs) then Some (xs ! nat i) else None)"

text \<open>Calling a method on \<^verbatim>\<open>undefined\<close> throws a \<^verbatim>\<open>TypeError\<close>.\<close>

datatype js_error = TypeError

subsection \<open>Numbers and their rendering\<close>

text \<open>
  The arguments of the number functions are non-negative integers, modelled as
  \<^typ>\<open>nat\<close>. Below \<open>2 ^ 53\<close> every natural number is a JavaScript number and the
  operations the source uses (\<^verbatim>\<open>%\<close>, \<^verbatim>\<open>Math.floor(num / 1000)\<close>, comparisons) are exact.
  A larger natural number \<open>n\<close> stands for the double nearest to it, \<open>toDouble n\<close>
  (round to nearest, ties to even, 53 bits of significand).
\<close>

function bitlen :: "nat \<Rightarrow> nat" where
  "bitlen n = (if n = 0 then 0 else Suc (bitlen (n div 2)))"
  by pat_completeness auto
termination
  by (relation "measure id") auto

definition toDouble :: "nat \<Rightarrow> nat" where
  "toDouble n =
     (let b = bitlen n in
      if b \<le> 53 then n
      else
        let u = 2 ^ (b - 53); q = n div u; r = n mod u
        in (if 2 * r < u \<or> (2 * r = u \<and> even q) then q else q + 1) * u)"

definition digit :: "nat \<Rightarrow> char" where
  "digit d = ''0123456789'' ! d"

function decimal :: "nat \<Rightarrow> string" where
  "decimal n = (if n < 10 then [digit n] else decimal (n div 10) @ [digit (n mod 10)])"
  by pat_completeness auto
termination
  by (relation "measure id") auto

text \<open>
  \<^verbatim>\<open>Number.prototype.toString\<close> (radix 10) prints the shortest decimal that determines
  the double: the least number \<open>k\<close> of significant digits such that some \<open>s\<close> of \<open>k\<close>
  digits, scaled by a power of ten, rounds to the double; among several, the closest.
  \<open>shortest_from x us\<close> tries the units \<open>us\<close> (powers of ten, largest first) and
  takes the first multiple of a unit next to \<open>x\<close> that rounds to \<open>x\<close>.
\<close>

fun shortest_from :: "nat \<Rightarrow> nat list \<Rightarrow> nat" where
  "shortest_from x [] = x"
| "shortest_from x (u # us) =
     (let lo = (x div u) * u; hi = lo + u;
          okl = (toDouble lo = x); okh = (toDouble hi = x)
      in if okl \<and> okh then (if x - lo \<le> hi - x then lo else hi)
         else if okl then lo
         else if okh then hi
         else shortest_from x us)"

definition shortest :: "nat \<Rightarrow> nat" where
  "shortest x = shortest_from x (map (\<lambda>i. 10 ^ i) (rev [0..<length (decimal x)]))"

fun strip_zeros :: "string \<Rightarrow> string" where
  "strip_zeros [] = []"
| "strip_zeros (c # cs) =
     (let r = strip_zeros cs in if r = [] \<and> c = CHR ''0'' then [] else c # r)"

text \<open>
  With \<open>n\<close> the number of digits before the decimal point: the plain digits when
  \<open>n \<le> 21\<close>, otherwise scientific notation \<^verbatim>\<open>d.ddde+x\<close> with exponent \<open>n - 1\<close>.
\<close>

definition render :: "nat \<Rightarrow> string" where
  "render v =
     (let ds = decimal v; n = length ds in
      if n \<le> 21 then ds
      else
        let sig = strip_zeros ds in
        (if length sig = 1 then sig else hd sig # ''.'' @ tl sig)
          @ ''e+'' @ decimal (n - 1))"

definition toString :: "nat \<Rightarrow> string" where
  "toString n =
     (let x = toDouble n in
      if 2 ^ 1024 \<le> x then ''Infinity'' else render (shortest x))"

subsection \<open>Regular expressions\<close>

text \<open>
  The fragment of JavaScript regular expressions that \<^verbatim>\<open>numbers_es.ts\<close> uses: literal
  characters, the assertions \<^verbatim>\<open>^\<close> and \<^verbatim>\<open>$\<close> (no flags, so start and end of the whole
  input), sequence and alternation. \<open>rmatch r s i\<close> lists the positions where a match
  of \<open>r\<close> that starts at \<open>i\<close> can end, in the order backtracking tries them.
\<close>

datatype regex = Chr char | Bol | Eol | Seq regex regex | Alt regex regex

fun rmatch :: "regex \<Rightarrow> string \<Rightarrow> nat \<Rightarrow> nat list" where
  "rmatch (Chr c) s i = (if i < length s \<and> s ! i = c then [Suc i] else [])"
| "rmatch Bol s i = (if i = 0 then [i] else [])"
| "rmatch Eol s i = (if i = length s then [i] else [])"
| "rmatch (Seq a b) s i = concat (map (rmatch b s) (rmatch a s i))"
| "rmatch (Alt a b) s i = rmatch a s i @ rmatch b s i"

text \<open>The leftmost match: its start and its end.\<close>

definition re_search :: "regex \<Rightarrow> string \<Rightarrow> (nat \<times> nat) option" where
  "re_search r s =
     (case filter (\<lambda>i. rmatch r s i \<noteq> []) [0..<Suc (length s)] of
        [] \<Rightarrow> None
      | i # _ \<Rightarrow> Some (i, hd (rmatch r s i)))"

text \<open>\<^verbatim>\<open>s.match(r)\<close> as a truth value, and \<^verbatim>\<open>s.replace(r, t)\<close> for a pattern without the
  global flag and a replacement without \<^verbatim>\<open>$\<close>.\<close>

definition js_match :: "string \<Rightarrow> regex \<Rightarrow> bool" where
  "js_match s r = (re_search r s \<noteq> None)"

definition js_replace :: "string \<Rightarrow> regex \<Rightarrow> string \<Rightarrow> string" where
  "js_replace s r t =
     (case re_search r s of None \<Rightarrow> s | Some (i, j) \<Rightarrow> take i s @ t @ drop j s)"

section \<open>Spanish numbers (\<^verbatim>\<open>numbers_es.ts\<close>)\<close>

definition zero :: string where
  "zero = ''cero''"

definition onesNumbers :: "string list" where
  "onesNumbers = [
     '''',
     ''uno'',
     ''dos'',
     ''tres'',
     ''cuatro'',
     ''cinco'',
     ''seis'',
     ''siete'',
     ''ocho'',
     ''nueve'',
     ''diez'',
     ''once'',
     ''doce'',
     ''trece'',
     ''catorce'',
     ''quince'',
     ''diecis'' @ [e_acute] @ ''is'',
     ''diecisiete'',
     ''dieciocho'',
     ''diecinueve'',
     ''veinte'',
     ''veintiuno'',
     ''veintid'' @ [o_acute] @ ''s'',
     ''veintitr'' @ [e_acute] @ ''s'',
     ''veinticuatro'',
     ''veinticinco'',
     ''veintis'' @ [e_acute] @ ''is'',
     ''veintisiete'',
     ''veintiocho'',
     ''veintinueve''
   ]"

definition tensNumbers :: "string list" where
  "tensNumbers = [
     '''',
     '''',
     '''',
     ''treinta'',
     ''cuarenta'',
     ''cincuenta'',
     ''sesenta'',
     ''setenta'',
     ''ochenta'',
     ''noventa''
   ]"

definition hundredsNumbers :: "string list" where
  "hundredsNumbers = [
     '''',
     ''cien'',
     ''doscientos'',
     ''trescientos'',
     ''cuatrocientos'',
     ''quinientos'',
     ''seiscientos'',
     ''setecientos'',
     ''ochocientos'',
     ''novecientos''
   ]"

definition largeNumbers :: "string list" where
  "largeNumbers = [
     '''',
     ''mil'',
     ''mill'' @ [o_acute] @ ''n'',
     ''mil mill'' @ [o_acute] @ ''nes'',
     ''bill'' @ [o_acute] @ ''n'',
     ''mil bill'' @ [o_acute] @ ''nes'',
     ''trill'' @ [o_acute] @ ''n'',
     ''mil trill'' @ [o_acute] @ ''nes'',
     ''cuatrill'' @ [o_acute],
     ''mil cuatrill'' @ [o_acute] @ ''es'',
     ''quintill'' @ [o_acute] @ ''n'',
     ''mil quintill'' @ [o_acute] @ ''nes'',
     ''sextill'' @ [o_acute] @ ''n'',
     ''mil sextill'' @ [o_acute] @ ''nes'',
     ''septill'' @ [o_acute] @ ''n'',
     ''mil septill'' @ [o_acute] @ ''nes'',
     ''octill'' @ [o_acute] @ ''n'',
     ''mil octill'' @ [o_acute] @ ''nes'',
     ''nonill'' @ [o_acute] @ ''n'',
     ''mil nonill'' @ [o_acute] @ ''nes'',
     ''decill'' @ [o_acute] @ ''n'',
     ''mil decill'' @ [o_acute] @ ''nes''
   ]"

text \<open>
  \<^verbatim>\<open>tensToWords\<close>. The indices are below the lengths of the tables
  (\<open>n < 30\<close>, \<open>n div 10 < 10\<close>, \<open>n mod 10 < 10\<close>), see \<open>tensToWords_indices\<close>. The
  empty string is the only falsy string.
\<close>

definition tensToWords :: "nat \<Rightarrow> string" where
  "tensToWords num =
     (let n = num mod 100 in
      if n < 30 then onesNumbers ! n
      else
        let tens = tensNumbers ! (n div 10);
            ones = onesNumbers ! (n mod 10)
        in if tens \<noteq> [] \<and> ones \<noteq> [] then tens @ '' y '' @ ones
           else if tens \<noteq> [] then tens else ones)"

definition hundredsToWords :: "nat \<Rightarrow> string" where
  "hundredsToWords num =
     (let n = num mod 1000;
          hundred = n div 100;
          hundreds = hundredsNumbers ! hundred;
          tens = tensToWords (n mod 100)
      in if hundred = 1 then
           (if tens = [] then hundreds
            else hundreds @ ''to'' @ '' '' @ tens)
         else if hundreds \<noteq> [] \<and> tens \<noteq> [] then hundreds @ '' '' @ tens
         else if hundreds \<noteq> [] then hundreds else tens)"

text \<open>
  The argument of \<^verbatim>\<open>large.match('/^mil( |$)/')\<close> is a string, not a regular expression
  literal: \<^verbatim>\<open>String.prototype.match\<close> compiles the whole string as a pattern, so both
  slashes are literal characters of the pattern.
\<close>

definition mil_pattern :: regex where
  "mil_pattern =
     Seq (Chr CHR ''/'') (Seq Bol (Seq (Chr CHR ''m'') (Seq (Chr CHR ''i'') (Seq (Chr CHR ''l'')
       (Seq (Alt (Chr CHR '' '') Eol) (Chr CHR ''/''))))))"

text \<open>The literal \<^verbatim>\<open>/\u00f3n$/\<close>: the letter o with acute accent, then n, at the end.\<close>

definition on_pattern :: regex where
  "on_pattern = Seq (Chr o_acute) (Seq (Chr CHR ''n'') Eol)"

text \<open>
  One round of the \<^verbatim>\<open>while\<close> loop of \<^verbatim>\<open>numberToWords\<close>: the new value of \<^verbatim>\<open>str\<close>.
  \<^verbatim>\<open>large\<close> is read before it is known to be needed; it is \<^verbatim>\<open>undefined\<close> beyond the
  table, and then \<^verbatim>\<open>large.match\<close> and \<^verbatim>\<open>large.replace\<close> throw.
\<close>

definition period_step :: "nat \<Rightarrow> nat \<Rightarrow> string \<Rightarrow> js_error + string" where
  "period_step num pos str =
     (let hundreds = num mod 1000 in
      if hundreds \<noteq> 0 then
        (let large = js_index largeNumbers (int pos);
             huns = hundredsToWords hundreds
         in if pos = 0 then Inr huns
            else if hundreds = 1 then
              (case large of
                 None \<Rightarrow> Inl TypeError
               | Some l \<Rightarrow>
                   let large' = (if js_match l mil_pattern then l else ''un '' @ l)
                   in Inr (large' @ (if str \<noteq> [] then '' '' @ str else [])))
            else
              (case large of
                 None \<Rightarrow> Inl TypeError
               | Some l \<Rightarrow>
                   let large' = js_replace l on_pattern ''ones''
                   in Inr (hundredsToWords hundreds @ '' '' @ large'
                           @ (if str \<noteq> [] then '' '' @ str else []))))
      else Inr str)"

function numberToWords_loop :: "nat \<Rightarrow> nat \<Rightarrow> string \<Rightarrow> js_error + string" where
  "numberToWords_loop num pos str =
     (if num > 0 then
        (case period_step num pos str of
           Inl e \<Rightarrow> Inl e
         | Inr str' \<Rightarrow> numberToWords_loop (num div 1000) (Suc pos) str')
      else Inr str)"
  by pat_completeness auto
termination
  by (relation "measure (\<lambda>(num, pos, str). num)") auto

definition numberToWords :: "nat \<Rightarrow> js_error + string" where
  "numberToWords num =
     (if num = 0 then Inr zero
      else if 10 ^ 36 \<le> num then Inr (toString num)
      else numberToWords_loop num 0 [])"

subsection \<open>Ordinals\<close>

definition onesOrdinals :: "string list" where
  "onesOrdinals = [
     ''primera'',
     ''segunda'',
     ''tercera'',
     ''cuarta'',
     ''quinta'',
     ''sexta'',
     ''s'' @ [e_acute] @ ''ptima'',
     ''octava'',
     ''novena'',
     ''d'' @ [e_acute] @ ''cima'',
     ''und'' @ [e_acute] @ ''cima'',
     ''duod'' @ [e_acute] @ ''cima''
   ]"

definition tensOrdinals :: "string list" where
  "tensOrdinals = [
     ''d'' @ [e_acute] @ ''cima'',
     ''vig'' @ [e_acute] @ ''sima'',
     ''trig'' @ [e_acute] @ ''sima'',
     ''cuadrag'' @ [e_acute] @ ''sima'',
     ''quincuag'' @ [e_acute] @ ''sima'',
     ''sexag'' @ [e_acute] @ ''sima'',
     ''septuag'' @ [e_acute] @ ''sima'',
     ''octog'' @ [e_acute] @ ''sima'',
     ''nonag'' @ [e_acute] @ ''sima''
   ]"

definition hundredsOrdinals :: "string list" where
  "hundredsOrdinals = [
     ''cent'' @ [e_acute] @ ''sima'',
     ''ducent'' @ [e_acute] @ ''sima'',
     ''tricent'' @ [e_acute] @ ''sima'',
     ''cuadringent'' @ [e_acute] @ ''sima'',
     ''quingent'' @ [e_acute] @ ''sima'',
     ''sexcent'' @ [e_acute] @ ''sima'',
     ''septingent'' @ [e_acute] @ ''sima'',
     ''octingent'' @ [e_acute] @ ''sima'',
     ''noningent'' @ [e_acute] @ ''sima''
   ]"

definition milesima :: string where
  "milesima = ''mil'' @ [e_acute] @ ''sima''"

text \<open>
  \<^verbatim>\<open>Array.prototype.join(' ')\<close>: an element that is \<^verbatim>\<open>undefined\<close> contributes the empty
  string.
\<close>

definition js_str :: "string option \<Rightarrow> string" where
  "js_str x = (case x of None \<Rightarrow> [] | Some s \<Rightarrow> s)"

fun js_join :: "string option list \<Rightarrow> string" where
  "js_join [] = []"
| "js_join [x] = js_str x"
| "js_join (x # y # ys) = js_str x @ '' '' @ js_join (y # ys)"

text \<open>
  An array read is recorded as the array and the index; it is within bounds when the
  index denotes an element.
\<close>

type_synonym array_read = "string list \<times> int"

definition in_bounds :: "array_read \<Rightarrow> bool" where
  "in_bounds r = (0 \<le> snd r \<and> snd r < int (length (fst r)))"

text \<open>
  \<^verbatim>\<open>numberToOrdinal\<close>, run with a log of its array reads. The result is \<^const>\<open>None\<close>
  when the function returns \<^verbatim>\<open>undefined\<close>. The parameter \<^verbatim>\<open>_plural\<close> is not used by the
  source.

  \<open>ordinal_tail\<close> is the part of the body after the test \<^verbatim>\<open>if (!num)\<close>, on the current
  values of \<^verbatim>\<open>num\<close> and \<^verbatim>\<open>result\<close>; \<open>num2\<close>, \<open>num3\<close> are the later values of \<^verbatim>\<open>num\<close>
  and \<open>result2\<close> to \<open>result4\<close> those of \<^verbatim>\<open>result\<close>.
\<close>

definition ordinal_tail :: "nat \<Rightarrow> string option list \<Rightarrow> string option \<times> array_read list" where
  "ordinal_tail num1 result1 =
     (let pos = num1 div 100;
          (num2, result2, reads2) =
            (if pos > 0
             then (num1 mod 100,
                   result1 @ [js_index hundredsOrdinals (int pos - 1)],
                   [(hundredsOrdinals, int pos - 1)])
             else (num1, result1, []))
      in if num2 \<le> 12 then
           (Some (js_join (result2 @ [js_index onesOrdinals (int num2 - 1)])),
            reads2 @ [(onesOrdinals, int num2 - 1)])
         else
           let pos' = num2 div 10;
               (num3, result3, reads3) =
                 (if pos' > 0
                  then (num2 mod 10,
                        result2 @ [js_index tensOrdinals (int pos' - 1)],
                        reads2 @ [(tensOrdinals, int pos' - 1)])
                  else (num2, result2, reads2));
               (result4, reads4) =
                 (if num3 > 0
                  then (result3 @ [js_index onesOrdinals (int num3 - 1)],
                        reads3 @ [(onesOrdinals, int num3 - 1)])
                  else (result3, reads3))
           in (Some (js_join result4), reads4))"

definition numberToOrdinal_run :: "nat \<Rightarrow> bool \<Rightarrow> string option \<times> array_read list" where
  "numberToOrdinal_run num plural =
     (if num > 1999 then (Some (toString num @ ''a''), [])
      else if num \<le> 12 then
        (js_index onesOrdinals (int num - 1), [(onesOrdinals, int num - 1)])
      else
        let (num1, result1) =
              (if num \<ge> 1000 then (num - 1000, [Some milesima]) else (num, []))
        in if num1 = 0 then (Some (js_join result1), [])
           else ordinal_tail num1 result1)"

definition numberToOrdinal :: "nat \<Rightarrow> bool \<Rightarrow> string option" where
  "numberToOrdinal num plural = fst (numberToOrdinal_run num plural)"

definition numberToOrdinal_reads :: "nat \<Rightarrow> bool \<Rightarrow> array_read list" where
  "numberToOrdinal_reads num plural = snd (numberToOrdinal_run num plural)"

section \<open>The symbol registry (\<^verbatim>\<open>semantic_attr.ts\<close>)\<close>

text \<open>
  Glyphs range over all of Unicode, so the strings of this module are lists of UTF-16
  code units given as numbers; \<^verbatim>\<open>===\<close> on strings is equality of these lists.
\<close>

type_synonym jsstring = "nat list"

subsection \<open>Fences\<close>

text \<open>
  \<^verbatim>\<open>new Map(entries)\<close> stores the entries in order, a later entry for a key replacing
  an earlier one; \<^verbatim>\<open>get\<close> of an absent key is \<^verbatim>\<open>undefined\<close>, here \<^const>\<open>None\<close>.
\<close>

definition js_Map :: "('k \<times> 'v) list \<Rightarrow> ('k \<rightharpoonup> 'v)" where
  "js_Map entries = fold (\<lambda>(k, v) m. m(k \<mapsto> v)) entries Map.empty"

definition FencesHoriz_entries :: "(jsstring \<times> jsstring) list" where
  "FencesHoriz_entries = [
     ([0x28], [0x29]), ([0x5B], [0x5D]), ([0x7B], [0x7D]),
     ([0x2045], [0x2046]), ([0x2329], [0x232A]), ([0x2768], [0x2769]),
     ([0x276A], [0x276B]), ([0x276C], [0x276D]), ([0x276E], [0x276F]),
     ([0x2770], [0x2771]), ([0x2772], [0x2773]), ([0x2774], [0x2775]),
     ([0x27C5], [0x27C6]), ([0x27E6], [0x27E7]), ([0x27E8], [0x27E9]),
     ([0x27EA], [0x27EB]), ([0x27EC], [0x27ED]), ([0x27EE], [0x27EF]),
     ([0x2983], [0x2984]), ([0x2985], [0x2986]), ([0x2987], [0x2988]),
     ([0x2989], [0x298A]), ([0x298B], [0x298C]), ([0x298D], [0x298E]),
     ([0x298F], [0x2990]), ([0x2991], [0x2992]), ([0x2993], [0x2994]),
     ([0x2995], [0x2996]), ([0x2997], [0x2998]), ([0x29D8], [0x29D9]),
     ([0x29DA], [0x29DB]), ([0x29FC], [0x29FD]), ([0x2E22], [0x2E23]),
     ([0x2E24], [0x2E25]), ([0x2E26], [0x2E27]), ([0x2E28], [0x2E29]),
     ([0x3008], [0x3009]), ([0x300A], [0x300B]), ([0x300C], [0x300D]),
     ([0x300E], [0x300F]), ([0x3010], [0x3011]), ([0x3014], [0x3015]),
     ([0x3016], [0x3017]), ([0x3018], [0x3019]), ([0x301A], [0x301B]),
     ([0xFD3E], [0xFD3F]), ([0xFE17], [0xFE18]), ([0xFE59], [0xFE5A]),
     ([0xFE5B], [0xFE5C]), ([0xFE5D], [0xFE5E]), ([0xFF08], [0xFF09]),
     ([0xFF3B], [0xFF3D]), ([0xFF5B], [0xFF5D]), ([0xFF5F], [0xFF60]),
     ([0xFF62], [0xFF63]), ([0x2308], [0x2309]), ([0x230A], [0x230B]),
     ([0x230C], [0x230D]), ([0x230E], [0x230F]), ([0x231C], [0x231D]),
     ([0x231E], [0x231F]), ([0x239B], [0x239E]), ([0x239C], [0x239F]),
     ([0x239D], [0x23A0]), ([0x23A1], [0x23A4]), ([0x23A2], [0x23A5]),
     ([0x23A3], [0x23A6]), ([0x23A7], [0x23AB]), ([0x23A8], [0x23AC]),
     ([0x23A9], [0x23AD]), ([0x23B0], [0x23B1]), ([0x23B8], [0x23B9])
   ]"

definition FencesVert_entries :: "(jsstring \<times> jsstring) list" where
  "FencesVert_entries = [
     ([0x23B4], [0x23B5]), ([0x23DC], [0x23DD]), ([0x23DE], [0x23DF]),
     ([0x23E0], [0x23E1]), ([0xFE35], [0xFE36]), ([0xFE37], [0xFE38]),
     ([0xFE39], [0xFE3A]), ([0xFE3B], [0xFE3C]), ([0xFE3D], [0xFE3E]),
     ([0xFE3F], [0xFE40]), ([0xFE41], [0xFE42]), ([0xFE43], [0xFE44]),
     ([0xFE47], [0xFE48])
   ]"

definition neutralFences :: "jsstring list" where
  "neutralFences = [
     [0x7C], [0xA6], [0x2223], [0x23D0], [0x23B8], [0x23B9],
     [0x2758], [0xFF5C], [0xFFE4], [0xFE31], [0xFE32], [0xFE33],
     [0xFE34], [0xFFE8]
   ]"

definition metricFences :: "jsstring list" where
  "metricFences = [
     [0x2016], [0x2225], [0x2980], [0x2AF4]
   ]"

definition FencesHoriz :: "jsstring \<rightharpoonup> jsstring" where
  "FencesHoriz = js_Map FencesHoriz_entries"

definition FencesVert :: "jsstring \<rightharpoonup> jsstring" where
  "FencesVert = js_Map FencesVert_entries"

text \<open>
  \<^verbatim>\<open>isMatchingFence\<close>. \<^verbatim>\<open>xs.indexOf(x) !== -1\<close> is membership. An absent key yields
  \<^verbatim>\<open>undefined\<close>, which is not \<^verbatim>\<open>===\<close> to the string \<^verbatim>\<open>close\<close>.
\<close>

definition isMatchingFence :: "jsstring \<Rightarrow> jsstring \<Rightarrow> bool" where
  "isMatchingFence opening closing =
     (if opening \<in> set neutralFences \<or> opening \<in> set metricFences
      then opening = closing
      else FencesHoriz opening = Some closing \<or> FencesVert opening = Some closing)"

text \<open>
  The condition of the specification: the pair is an entry of the horizontal or of the
  vertical table, or both glyphs are the same neutral or metric fence.
\<close>

definition fencesMatch_spec :: "jsstring \<Rightarrow> jsstring \<Rightarrow> bool" where
  "fencesMatch_spec opening closing =
     (FencesHoriz opening = Some closing \<or> FencesVert opening = Some closing
      \<or> (opening = closing
          \<and> (opening \<in> set neutralFences \<or> opening \<in> set metricFences)))"

subsection \<open>Meanings\<close>

text \<open>
  Modelled from the spec: the enumerations \<^verbatim>\<open>SemanticType\<close>, \<^verbatim>\<open>SemanticRole\<close>,
  \<^verbatim>\<open>SemanticFont\<close> and \<^verbatim>\<open>SemanticSecondary\<close> are declared in \<^verbatim>\<open>semantic_meaning.ts\<close>,
  which is not among the sources. Each is a datatype with the members that the
  modelled code names and one constructor for all the others. Their members are
  non-empty strings, hence truthy.
\<close>

datatype SemanticType = Type_UNKNOWN | IDENTIFIER | OPERATOR | NUMBER | Type_other jsstring

datatype SemanticRole =
  Role_UNKNOWN | LATINLETTER | GREEKLETTER | PREFIXOP | INTEGER | Role_other jsstring

datatype SemanticFont = Font_UNKNOWN | FULLWIDTH | NORMAL | Font_other jsstring

datatype SemanticSecondary = ALLLETTERS | D | Secondary_other jsstring

record SemanticMeaning =
  type :: SemanticType
  role :: SemanticRole
  font :: SemanticFont

text \<open>An assignment group; \<^verbatim>\<open>font\<close> and \<^verbatim>\<open>secondary\<close> are optional.\<close>

record MeaningSet =
  st_set :: "jsstring list"
  st_role :: SemanticRole
  st_type :: SemanticType
  st_font :: "SemanticFont option"
  st_secondary :: "SemanticSecondary option"

text \<open>
  The two maps of \<^verbatim>\<open>SemanticMap\<close>. The keys of \<^verbatim>\<open>Secondary\<close> are built by \<^verbatim>\<open>secKey\<close> from
  the kind and the character; they are kept as this pair.
\<close>

record registry =
  Meaning :: "jsstring \<rightharpoonup> SemanticMeaning"
  Secondary :: "(SemanticSecondary \<times> jsstring) \<rightharpoonup> SemanticSecondary"

definition empty_registry :: registry where
  "empty_registry = \<lparr>Meaning = Map.empty, Secondary = Map.empty\<rparr>"

definition Meaning_set :: "jsstring \<Rightarrow> SemanticMeaning \<Rightarrow> registry \<Rightarrow> registry" where
  "Meaning_set symbol meaning reg = reg\<lparr>Meaning := (Meaning reg)(symbol \<mapsto> meaning)\<rparr>"

text \<open>\<^verbatim>\<open>secondaryMap.set(char, kind)\<close>: the annotation defaults to the kind.\<close>

definition Secondary_set :: "jsstring \<Rightarrow> SemanticSecondary \<Rightarrow> registry \<Rightarrow> registry" where
  "Secondary_set char kind reg = reg\<lparr>Secondary := (Secondary reg)((kind, char) \<mapsto> kind)\<rparr>"

text \<open>
  \<^verbatim>\<open>meaningMap.get\<close>: the stored meaning, an object and hence truthy, or else the
  unknown triple.
\<close>

definition unknown_meaning :: SemanticMeaning where
  "unknown_meaning = \<lparr>type = Type_UNKNOWN, role = Role_UNKNOWN, font = Font_UNKNOWN\<rparr>"

definition meaningMap_get :: "registry \<Rightarrow> jsstring \<Rightarrow> SemanticMeaning" where
  "meaningMap_get reg symbol =
     (case Meaning reg symbol of Some meaning \<Rightarrow> meaning | None \<Rightarrow> unknown_meaning)"

text \<open>
  The meaning that \<^verbatim>\<open>initMeaning\<close> stores for the symbols of a group:
  \<^verbatim>\<open>{role: st.role || UNKNOWN, type: st.type || UNKNOWN, font: st.font || UNKNOWN}\<close>.
\<close>

definition group_meaning :: "MeaningSet \<Rightarrow> SemanticMeaning" where
  "group_meaning st =
     \<lparr>type = st_type st, role = st_role st,
      font = (case st_font st of None \<Rightarrow> Font_UNKNOWN | Some f \<Rightarrow> f)\<rparr>"

text \<open>
  \<^verbatim>\<open>initMeaning\<close>, on the table \<^verbatim>\<open>symbolSetToSemantic_\<close>: the groups in array order (every
  entry is an object, so the loop runs to the end of the array), the symbols of a group
  in order.
\<close>

definition initMeaning_symbol :: "MeaningSet \<Rightarrow> jsstring \<Rightarrow> registry \<Rightarrow> registry" where
  "initMeaning_symbol st symbol reg =
     (let reg' = Meaning_set symbol (group_meaning st) reg
      in case st_secondary st of
           None \<Rightarrow> reg'
         | Some sec \<Rightarrow> Secondary_set symbol sec reg')"

definition initMeaning :: "MeaningSet list \<Rightarrow> registry \<Rightarrow> registry" where
  "initMeaning symbolSetToSemantic reg =
     fold (\<lambda>st. fold (initMeaning_symbol st) (st_set st)) symbolSetToSemantic reg"

subsection \<open>Alphabets\<close>

text \<open>
  The module \<^verbatim>\<open>speech_rules/alphabet\<close> is not among the sources. What \<^verbatim>\<open>alphabets\<close> takes
  from it is a parameter: the entries of \<^verbatim>\<open>SemanticFont\<close> (name and value, in the order
  of \<^verbatim>\<open>Object.entries\<close>), whether \<^verbatim>\<open>Alphabet.Embellish[name]\<close> is truthy, and the code
  points \<^verbatim>\<open>INTERVALS.get(alphabetName(alphabet, font)).unicode\<close> of an alphabet in a
  font, \<^const>\<open>None\<close> when there is no such interval.
\<close>

datatype Base = LATINCAP | LATINSMALL | GREEKCAP | GREEKSMALL | DIGIT

record Alphabet =
  fonts :: "(jsstring \<times> SemanticFont) list"
  Embellish :: "jsstring \<Rightarrow> bool"
  INTERVALS :: "Base \<Rightarrow> SemanticFont \<Rightarrow> jsstring list option"

text \<open>
  \<^verbatim>\<open>changeSemantics\<close> and \<^verbatim>\<open>addSecondaries\<close>: the entries of \<^verbatim>\<open>change\<close> in the order of
  \<^verbatim>\<open>Object.entries\<close>; a position beyond the alphabet reads \<^verbatim>\<open>undefined\<close> and is skipped.
\<close>

definition changeSemantics ::
    "jsstring list \<Rightarrow> (nat \<times> SemanticMeaning) list \<Rightarrow> registry \<Rightarrow> registry" where
  "changeSemantics alphabet change reg =
     fold (\<lambda>(pos, meaning) reg.
             case js_index alphabet (int pos) of
               None \<Rightarrow> reg
             | Some character \<Rightarrow> Meaning_set character meaning reg)
          change reg"

definition addSecondaries ::
    "jsstring list \<Rightarrow> (nat \<times> SemanticSecondary) list \<Rightarrow> registry \<Rightarrow> registry" where
  "addSecondaries alphabet change reg =
     fold (\<lambda>(pos, meaning) reg.
             case js_index alphabet (int pos) of
               None \<Rightarrow> reg
             | Some character \<Rightarrow> Secondary_set character meaning reg)
          change reg"

definition singleAlphabet ::
    "Alphabet \<Rightarrow> Base \<Rightarrow> SemanticType \<Rightarrow> SemanticRole \<Rightarrow> SemanticFont \<Rightarrow> SemanticFont
     \<Rightarrow> SemanticSecondary list \<Rightarrow> (nat \<times> SemanticMeaning) list
     \<Rightarrow> (nat \<times> SemanticSecondary) list \<Rightarrow> registry \<Rightarrow> registry" where
  "singleAlphabet env alphabet ty rl fnt semfont secondaries change secondary reg =
     (case INTERVALS env alphabet fnt of
        None \<Rightarrow> reg
      | Some unicode \<Rightarrow>
          addSecondaries unicode secondary
            (changeSemantics unicode change
              (fold (\<lambda>x reg.
                       fold (Secondary_set x) secondaries
                         (Meaning_set x \<lparr>type = ty, role = rl, font = semfont\<rparr> reg))
                    unicode reg)))"

text \<open>The semantic font of a font entry, and the positional overrides of lowercase Greek.\<close>

definition semfont_of :: "Alphabet \<Rightarrow> jsstring \<times> SemanticFont \<Rightarrow> SemanticFont" where
  "semfont_of env entry =
     (if Embellish env (fst entry) then Font_UNKNOWN
      else if snd entry = FULLWIDTH then NORMAL else snd entry)"

definition greek_change :: "SemanticFont \<Rightarrow> (nat \<times> SemanticMeaning) list" where
  "greek_change semfont =
     [(0, \<lparr>type = OPERATOR, role = PREFIXOP, font = semfont\<rparr>),
      (26, \<lparr>type = OPERATOR, role = PREFIXOP, font = semfont\<rparr>)]"

definition alphabets_font :: "Alphabet \<Rightarrow> jsstring \<times> SemanticFont \<Rightarrow> registry \<Rightarrow> registry" where
  "alphabets_font env entry reg =
     (let fnt = snd entry; semfont = semfont_of env entry;
          reg1 = singleAlphabet env LATINCAP IDENTIFIER LATINLETTER fnt semfont
                   [ALLLETTERS] [] [] reg;
          reg2 = singleAlphabet env LATINSMALL IDENTIFIER LATINLETTER fnt semfont
                   [ALLLETTERS] [] [(3, D)] reg1;
          reg3 = singleAlphabet env GREEKCAP IDENTIFIER GREEKLETTER fnt semfont
                   [ALLLETTERS] [] [] reg2;
          reg4 = singleAlphabet env GREEKSMALL IDENTIFIER GREEKLETTER fnt semfont
                   [ALLLETTERS] (greek_change semfont) [] reg3
      in singleAlphabet env DIGIT NUMBER INTEGER fnt semfont [] [] [] reg4)"

definition alphabets :: "Alphabet \<Rightarrow> registry \<Rightarrow> registry" where
  "alphabets env reg = fold (alphabets_font env) (fonts env) reg"

text \<open>The module runs \<^verbatim>\<open>initMeaning()\<close> and then \<^verbatim>\<open>alphabets()\<close> on the empty maps.\<close>

definition SemanticMap :: "Alphabet \<Rightarrow> MeaningSet list \<Rightarrow> registry" where
  "SemanticMap env symbolSetToSemantic =
     alphabets env (initMeaning symbolSetToSemantic empty_registry)"

subsection \<open>The order of the assignment groups\<close>

text \<open>
  The groups in the order in which the initialisation processes them, each with the
  meaning it assigns: the groups of the table, then for every font the five alphabets,
  each followed by its positional overrides.
\<close>

type_synonym assignment_group = "jsstring list \<times> SemanticMeaning"

definition table_groups :: "MeaningSet list \<Rightarrow> assignment_group list" where
  "table_groups symbolSetToSemantic = map (\<lambda>st. (st_set st, group_meaning st)) symbolSetToSemantic"

definition override_groups ::
    "jsstring list \<Rightarrow> (nat \<times> SemanticMeaning) list \<Rightarrow> assignment_group list" where
  "override_groups alphabet change =
     concat (map (\<lambda>(pos, meaning).
                    if pos < length alphabet then [([alphabet ! pos], meaning)] else [])
                 change)"

definition alphabet_groups ::
    "Alphabet \<Rightarrow> Base \<Rightarrow> SemanticMeaning \<Rightarrow> SemanticFont \<Rightarrow> (nat \<times> SemanticMeaning) list
     \<Rightarrow> assignment_group list" where
  "alphabet_groups env alphabet meaning fnt change =
     (case INTERVALS env alphabet fnt of
        None \<Rightarrow> []
      | Some unicode \<Rightarrow> (unicode, meaning) # override_groups unicode change)"

definition font_groups :: "Alphabet \<Rightarrow> jsstring \<times> SemanticFont \<Rightarrow> assignment_group list" where
  "font_groups env entry =
     (let fnt = snd entry; semfont = semfont_of env entry;
          letter = (\<lambda>rl. \<lparr>type = IDENTIFIER, role = rl, font = semfont\<rparr>)
      in alphabet_groups env LATINCAP (letter LATINLETTER) fnt []
         @ alphabet_groups env LATINSMALL (letter LATINLETTER) fnt []
         @ alphabet_groups env GREEKCAP (letter GREEKLETTER) fnt []
         @ alphabet_groups env GREEKSMALL (letter GREEKLETTER) fnt (greek_change semfont)
         @ alphabet_groups env DIGIT \<lparr>type = NUMBER, role = INTEGER, font = semfont\<rparr> fnt [])"

definition processed_groups :: "Alphabet \<Rightarrow> MeaningSet list \<Rightarrow> assignment_group list" where
  "processed_groups env symbolSetToSemantic =
     table_groups symbolSetToSemantic @ concat (map (font_groups env) (fonts env))"

text \<open>The meaning of the last group that contains the glyph, if there is one.\<close>

definition last_group_meaning :: "assignment_group list \<Rightarrow> jsstring \<Rightarrow> SemanticMeaning option" where
  "last_group_meaning groups g =
     (case filter (\<lambda>grp. g \<in> set (fst grp)) groups of
        [] \<Rightarrow> None
      | grp # grps \<Rightarrow> Some (snd (last (grp # grps))))"

text \<open>
  The map after the groups have been written over a map \<open>m\<close>, one after the other: at
  a glyph of some group the meaning of the last such group, elsewhere \<open>m\<close>.
\<close>

definition overlay ::
    "assignment_group list \<Rightarrow> (jsstring \<rightharpoonup> SemanticMeaning) \<Rightarrow> (jsstring \<rightharpoonup> SemanticMeaning)" where
  "overlay groups m g =
     (case last_group_meaning groups g of None \<Rightarrow> m g | Some meaning \<Rightarrow> Some meaning)"

section \<open>Tree annotation (\<^verbatim>\<open>semantic_annotator.js\<close>)\<close>

text \<open>
  Modelled from the spec: the class \<^verbatim>\<open>sre.SemanticNode\<close> is not among the sources. A
  node has an id, a textual value, a meaning, an ordered list of children, which it
  owns, and a mapping from annotation-domain names to annotation values; the payload
  type \<open>'a\<close> of the annotations is arbitrary. The mapping is an association list with
  one entry per domain, in the order in which the domains were first set.
\<close>

datatype 'a SemanticNode =
  SemanticNode (node_id: nat) (textContent: string) (node_meaning: SemanticMeaning)
    (annotation: "(string \<times> 'a) list") (childNodes: "'a SemanticNode list")

fun assign :: "'k \<Rightarrow> 'v \<Rightarrow> ('k \<times> 'v) list \<Rightarrow> ('k \<times> 'v) list" where
  "assign k v [] = [(k, v)]"
| "assign k v (p # ps) = (if fst p = k then (k, v) # ps else p # assign k v ps)"

text \<open>
  Modelled from the spec: \<^verbatim>\<open>node.addAnnotation(domain, value)\<close> assigns the value to the
  domain in the node's mapping.
\<close>

fun addAnnotation :: "string \<Rightarrow> 'a \<Rightarrow> 'a SemanticNode \<Rightarrow> 'a SemanticNode" where
  "addAnnotation domain a (SemanticNode i t m an cs) = SemanticNode i t m (assign domain a an) cs"

definition getAnnotation :: "string \<Rightarrow> 'a SemanticNode \<Rightarrow> 'a option" where
  "getAnnotation domain node = map_of (annotation node) domain"

text \<open>
  \<^verbatim>\<open>sre.SemanticAnnotator.prototype.annotate\<close>, for an annotator with the given domain
  and function: the children first, each in place, then the node itself. The tree is
  returned as it is after the run.
\<close>

fun annotate :: "string \<Rightarrow> ('a SemanticNode \<Rightarrow> 'a) \<Rightarrow> 'a SemanticNode \<Rightarrow> 'a SemanticNode" where
  "annotate domain func (SemanticNode i t m an cs) =
     (let node = SemanticNode i t m an (map (annotate domain func) cs)
      in addAnnotation domain (func node) node)"

text \<open>
  \<^verbatim>\<open>sre.SemanticVisitor.prototype.visit\<close>. The function returns the pair
  \<^verbatim>\<open>[annotation, info]\<close>; \<open>visit\<close> returns the tree after the run and the final value of
  \<^verbatim>\<open>result\<close>. \<open>visit_children\<close> is the \<^verbatim>\<open>for\<close> loop over \<^verbatim>\<open>node.childNodes\<close>, which ends
  after the last child.
\<close>

fun visit ::
    "string \<Rightarrow> ('a SemanticNode \<Rightarrow> 'i \<Rightarrow> 'a \<times> 'i) \<Rightarrow> 'a SemanticNode \<Rightarrow> 'i
     \<Rightarrow> 'a SemanticNode \<times> ('a \<times> 'i)"
  and visit_children ::
    "string \<Rightarrow> ('a SemanticNode \<Rightarrow> 'i \<Rightarrow> 'a \<times> 'i) \<Rightarrow> 'a SemanticNode list \<Rightarrow> 'a \<times> 'i
     \<Rightarrow> 'a SemanticNode list \<times> ('a \<times> 'i)" where
  "visit domain func (SemanticNode i t m an cs) info =
     (let result = func (SemanticNode i t m an cs) info;
          (cs', result') = visit_children domain func cs result
      in (SemanticNode i t m (assign domain (fst result) an) cs', result'))"
| "visit_children domain func [] result = ([], result)"
| "visit_children domain func (child # rest) result =
     (let (child', result1) = visit domain func child (snd result);
          (rest', result2) = visit_children domain func rest result1
      in (child' # rest', result2))"

section \<open>Results\<close>

subsection \<open>Spanish cardinals\<close>

lemma numberToWords_loop_zero: "numberToWords_loop 0 pos str = Inr str"
  by simp

lemma numberToWords_loop_step:
  "0 < num \<Longrightarrow> period_step num pos str = Inr s \<Longrightarrow>
   numberToWords_loop num pos str = numberToWords_loop (num div 1000) (Suc pos) s"
  by simp

lemma numberToWords_loop_error:
  "0 < num \<Longrightarrow> period_step num pos str = Inl e \<Longrightarrow> numberToWords_loop num pos str = Inl e"
  by simp

declare numberToWords_loop.simps [simp del]

lemmas cardinal_eval =
  numberToWords_def numberToWords_loop_zero numberToWords_loop_step period_step_def
  hundredsToWords_def tensToWords_def zero_def
  onesNumbers_def tensNumbers_def hundredsNumbers_def largeNumbers_def
  js_index_def js_match_def js_replace_def re_search_def mil_pattern_def on_pattern_def

text \<open>The table reads of \<open>tensToWords\<close> and \<open>hundredsToWords\<close> are within bounds.\<close>

lemma cardinal_tables_length:
  "length onesNumbers = 30" "length tensNumbers = 10" "length hundredsNumbers = 10"
  "length largeNumbers = 22"
  by (simp_all add: onesNumbers_def tensNumbers_def hundredsNumbers_def largeNumbers_def)

lemma tensToWords_indices:
  "(num mod 100 < 30 \<longrightarrow> num mod 100 < length onesNumbers)
   \<and> num mod 100 div 10 < length tensNumbers
   \<and> num mod 100 mod 10 < length onesNumbers"
proof -
  have "num mod 100 div 10 < 10" by simp
  moreover have "num mod 100 mod 10 < 30" by (rule less_trans [of _ 10]) simp_all
  ultimately show ?thesis by (simp only: cardinal_tables_length) simp
qed

lemma hundredsToWords_index: "num mod 1000 div 100 < length hundredsNumbers"
proof -
  have "num mod 1000 div 100 < 10" by simp
  then show ?thesis by (simp only: cardinal_tables_length)
qed

text \<open>
  The pattern \<^verbatim>\<open>/^mil( |$)/\<close>, compiled from a string, matches no input: after its first
  character, a slash, the assertion \<^verbatim>\<open>^\<close> cannot hold.
\<close>

lemma mil_pattern_never_matches: "js_match s mil_pattern = False"
  by (auto simp add: js_match_def re_search_def mil_pattern_def filter_empty_conv
      split: list.splits)

text \<open>
  C6: the Spanish cardinal function produces the irregular small-number and hundred
  forms: \<^verbatim>\<open>numberToWords(0) = 'cero'\<close>, \<^verbatim>\<open>numberToWords(21) = 'veintiuno'\<close> and
  \<^verbatim>\<open>numberToWords(100) = 'cien'\<close>.
\<close>

theorem C6_irregular_forms:
  "numberToWords 0 = Inr ''cero''
   \<and> numberToWords 21 = Inr ''veintiuno''
   \<and> numberToWords 100 = Inr ''cien''"
  by (simp add: cardinal_eval)

text \<open>
  C3 (what the code does at the input of the claim): \<^verbatim>\<open>numberToWords(1000)\<close> is
  \<^verbatim>\<open>'un mil'\<close>, with the leading \<^verbatim>\<open>un\<close> that the claim says is omitted before \<^verbatim>\<open>mil\<close>;
  before the other scale words the code does put \<^verbatim>\<open>un\<close>, as in
  \<^verbatim>\<open>numberToWords(1000000)\<close>, the word \<^verbatim>\<open>un\<close> followed by the word for a million.
\<close>

theorem C3_un_mil:
  "numberToWords 1000 = Inr ''un mil''
   \<and> numberToWords 1000 \<noteq> Inr ''mil''
   \<and> numberToWords 1000000 = Inr (''un mill'' @ [o_acute] @ ''n'')"
  by (simp add: cardinal_eval)

subsection \<open>Spanish ordinals\<close>

lemma ordinal_tables_length:
  "length onesOrdinals = 12" "length tensOrdinals = 9" "length hundredsOrdinals = 9"
  by (simp_all add: onesOrdinals_def tensOrdinals_def hundredsOrdinals_def)

lemma run_above_ceiling:
  "1999 < n \<Longrightarrow> numberToOrdinal_run n p = (Some (toString n @ ''a''), [])"
  by (simp add: numberToOrdinal_run_def)

lemma run_small:
  "n \<le> 12 \<Longrightarrow>
   numberToOrdinal_run n p = (js_index onesOrdinals (int n - 1), [(onesOrdinals, int n - 1)])"
  by (simp add: numberToOrdinal_run_def)

lemma run_thousand: "numberToOrdinal_run 1000 p = (Some milesima, [])"
  by (simp add: numberToOrdinal_run_def js_str_def)

lemma run_below_thousand:
  "12 < n \<Longrightarrow> n < 1000 \<Longrightarrow> numberToOrdinal_run n p = ordinal_tail n []"
  by (simp add: numberToOrdinal_run_def)

lemma run_above_thousand:
  "1000 < n \<Longrightarrow> n \<le> 1999 \<Longrightarrow>
   numberToOrdinal_run n p = ordinal_tail (n - 1000) [Some milesima]"
  by (simp add: numberToOrdinal_run_def)

lemma ordinal_tail_in_bounds:
  assumes "m < 1000" "m mod 100 \<noteq> 0"
  shows "list_all in_bounds (snd (ordinal_tail m res))"
proof -
  have h: "m div 100 < 10" using assms by simp
  show ?thesis
  proof (cases "0 < m div 100")
    case True
    with h assms show ?thesis
      apply (simp add: ordinal_tail_def Let_def in_bounds_def ordinal_tables_length)
      apply (intro conjI impI)
      apply simp_all
      done
  next
    case False
    hence "m mod 100 = m" by simp
    with False h assms show ?thesis
      apply (simp add: ordinal_tail_def Let_def in_bounds_def ordinal_tables_length)
      apply (intro conjI impI)
      apply simp_all
      done
  qed
qed

lemma ordinal_tail_hundred:
  assumes "0 < m" "m < 1000" "m mod 100 = 0"
  shows "ordinal_tail m res =
           (Some (js_join (res @ [Some (hundredsOrdinals ! (m div 100 - 1)), None])),
            [(hundredsOrdinals, int (m div 100) - 1), (onesOrdinals, - 1)])"
proof -
  have h: "m div 100 < 10" using assms by simp
  have p: "0 < m div 100" using assms by (simp add: div_greater_zero_iff mod_eq_0_iff_dvd dvd_imp_le)
  have i: "nat (int (m div 100) - 1) = m div 100 - 1" by (simp add: nat_diff_distrib')
  from h p i assms show ?thesis
    by (simp add: ordinal_tail_def Let_def js_index_def ordinal_tables_length)
qed

lemma in_bounds_reads:
  assumes "1 \<le> n \<and> \<not> 100 dvd n \<or> n = 1000 \<or> 1999 < n"
  shows "list_all in_bounds (numberToOrdinal_reads n p)"
proof (cases "1999 < n")
  case True
  then show ?thesis by (simp add: numberToOrdinal_reads_def run_above_ceiling)
next
  case le: False
  show ?thesis
  proof (cases "n = 1000")
    case True
    then show ?thesis by (simp add: numberToOrdinal_reads_def run_thousand)
  next
    case False
    with le assms have n: "1 \<le> n" "\<not> 100 dvd n" by auto
    then have m: "n mod 100 \<noteq> 0" by (simp add: mod_eq_0_iff_dvd)
    show ?thesis
    proof (cases "n \<le> 12")
      case True
      with n show ?thesis
        by (simp add: numberToOrdinal_reads_def run_small in_bounds_def ordinal_tables_length)
    next
      case gt: False
      show ?thesis
      proof (cases "n < 1000")
        case True
        with gt m show ?thesis
          by (simp add: numberToOrdinal_reads_def run_below_thousand ordinal_tail_in_bounds)
      next
        case False
        with \<open>n \<noteq> 1000\<close> le have r: "1000 < n" "n \<le> 1999" by simp_all
        then have "n - 1000 < 1000" by simp
        moreover have "(n - 1000 + 100 * 10) mod 100 = (n - 1000) mod 100"
          by (rule mod_mult_self2)
        moreover have "n - 1000 + 100 * 10 = n" using r by simp
        ultimately show ?thesis using r m
          by (simp add: numberToOrdinal_reads_def run_above_thousand ordinal_tail_in_bounds)
      qed
    qed
  qed
qed

text \<open>
  C9: the result of the Spanish \<^verbatim>\<open>numberToOrdinal\<close> does not depend on its plural
  argument.
\<close>

theorem C9_plural_ignored: "numberToOrdinal n b1 = numberToOrdinal n b2"
  unfolding numberToOrdinal_def numberToOrdinal_run_def by (rule refl)

text \<open>
  C10: for every \<open>n \<ge> 1\<close> that is not a multiple of 100, for \<open>n = 1000\<close> and for every
  \<open>n > 1999\<close>, all array reads of \<^verbatim>\<open>numberToOrdinal\<close> are within bounds. For \<open>n = 0\<close> and
  for every multiple of 100 from 100 to 1900 other than 1000, it reads
  \<^verbatim>\<open>onesOrdinals_[num - 1]\<close> with \<^verbatim>\<open>num = 0\<close>, the index \<open>-1\<close>, which is out of bounds and
  yields \<^verbatim>\<open>undefined\<close>: the result is \<^verbatim>\<open>undefined\<close> for \<open>n = 0\<close>, and otherwise the words
  for the thousand and the hundreds followed by an empty last word.
\<close>

theorem C10_array_reads:
  "(1 \<le> n \<and> \<not> 100 dvd n \<or> n = 1000 \<or> 1999 < n
      \<longrightarrow> list_all in_bounds (numberToOrdinal_reads n p))
   \<and> (n = 0 \<or> 100 dvd n \<and> 100 \<le> n \<and> n \<le> 1900 \<and> n \<noteq> 1000
      \<longrightarrow> (onesOrdinals, - 1) \<in> set (numberToOrdinal_reads n p)
          \<and> \<not> in_bounds (onesOrdinals, - 1)
          \<and> js_index onesOrdinals (- 1) = None
          \<and> numberToOrdinal n p =
              (if n = 0 then None
               else Some (js_join
                 ((if 1000 \<le> n then [Some milesima] else [])
                  @ [Some (hundredsOrdinals ! (n mod 1000 div 100 - 1)), None]))))"
proof (rule conjI; rule impI)
  assume "1 \<le> n \<and> \<not> 100 dvd n \<or> n = 1000 \<or> 1999 < n"
  then show "list_all in_bounds (numberToOrdinal_reads n p)"
    by (rule in_bounds_reads)
next
  assume a: "n = 0 \<or> 100 dvd n \<and> 100 \<le> n \<and> n \<le> 1900 \<and> n \<noteq> 1000"
  have oob: "\<not> in_bounds (onesOrdinals, - 1)" "js_index onesOrdinals (- 1) = None"
    by (simp_all add: in_bounds_def js_index_def)
  show "(onesOrdinals, - 1) \<in> set (numberToOrdinal_reads n p)
          \<and> \<not> in_bounds (onesOrdinals, - 1)
          \<and> js_index onesOrdinals (- 1) = None
          \<and> numberToOrdinal n p =
              (if n = 0 then None
               else Some (js_join
                 ((if 1000 \<le> n then [Some milesima] else [])
                  @ [Some (hundredsOrdinals ! (n mod 1000 div 100 - 1)), None])))"
  proof (cases "n = 0")
    case True
    then show ?thesis
      using oob by (simp add: numberToOrdinal_reads_def numberToOrdinal_def run_small)
  next
    case False
    with a have n: "100 dvd n" "100 \<le> n" "n \<le> 1900" "n \<noteq> 1000" by simp_all
    then have m: "n mod 100 = 0" by simp
    show ?thesis
    proof (cases "n < 1000")
      case True
      with n m have "numberToOrdinal_run n p =
           (Some (js_join ([] @ [Some (hundredsOrdinals ! (n div 100 - 1)), None])),
            [(hundredsOrdinals, int (n div 100) - 1), (onesOrdinals, - 1)])"
        by (simp only: run_below_thousand ordinal_tail_hundred)
      with True False oob show ?thesis
        by (simp add: numberToOrdinal_reads_def numberToOrdinal_def)
    next
      case False
      with n have r: "1000 < n" "n \<le> 1999" by simp_all
      have "(n - 1000 + 100 * 10) mod 100 = (n - 1000) mod 100"
        by (rule mod_mult_self2)
      moreover have e: "n - 1000 + 100 * 10 = n" using r by simp
      ultimately have m': "(n - 1000) mod 100 = 0" using m by simp
      have k: "n mod 1000 = n - 1000" using r by (simp add: mod_if)
      from r m' have "numberToOrdinal_run n p =
           (Some (js_join ([Some milesima]
              @ [Some (hundredsOrdinals ! ((n - 1000) div 100 - 1)), None])),
            [(hundredsOrdinals, int ((n - 1000) div 100) - 1), (onesOrdinals, - 1)])"
        by (simp only: run_above_thousand) (rule ordinal_tail_hundred, simp_all)
      with r k oob show ?thesis
        by (simp add: numberToOrdinal_reads_def numberToOrdinal_def)
    qed
  qed
qed

theorem C10_array_reads_witness:
  "(1 \<le> (21::nat) \<and> \<not> 100 dvd (21::nat))
   \<and> list_all in_bounds (numberToOrdinal_reads 21 False)
   \<and> (100 dvd (100::nat) \<and> 100 \<le> (100::nat) \<and> (100::nat) \<le> 1900 \<and> (100::nat) \<noteq> 1000)
   \<and> (onesOrdinals, - 1) \<in> set (numberToOrdinal_reads 100 False)
   \<and> numberToOrdinal 100 False = Some (''cent'' @ [e_acute] @ ''sima '')
   \<and> numberToOrdinal 0 False = None"
  using C10_array_reads [of 21 False] C10_array_reads [of 100 False]
    C10_array_reads [of 0 False]
  by (simp add: hundredsOrdinals_def js_str_def)

subsection \<open>Rendering of numbers\<close>

declare bitlen.simps [simp del]
declare decimal.simps [simp del]

lemma bitlen_le: "n < 2 ^ k \<Longrightarrow> bitlen n \<le> k"
proof (induction k arbitrary: n)
  case 0
  then show ?case by (simp add: bitlen.simps)
next
  case (Suc k)
  then have "n div 2 < 2 ^ k" by simp
  then have "bitlen (n div 2) \<le> k" by (rule Suc.IH)
  then show ?case by (subst bitlen.simps) simp
qed

lemma bitlen_gt: "2 ^ k \<le> n \<Longrightarrow> k < bitlen n"
proof (induction k arbitrary: n)
  case 0
  then show ?case by (subst bitlen.simps) simp
next
  case (Suc k)
  then have "2 ^ k \<le> n div 2" by simp
  then have "k < bitlen (n div 2)" by (rule Suc.IH)
  moreover have "(0::nat) < 2 ^ Suc k" by simp
  then have "0 < n" using Suc.prems by (rule less_le_trans)
  then have "n \<noteq> 0" by simp
  ultimately show ?case by (subst bitlen.simps) simp
qed

lemma bitlen_lower: "0 < n \<Longrightarrow> 2 ^ (bitlen n - 1) \<le> n"
proof (induction n rule: bitlen.induct)
  case (1 n)
  show ?case
  proof (cases "n div 2 = 0")
    case True
    with 1(2) have "n = 1" by (simp add: div_eq_0_iff)
    then show ?thesis by (simp add: bitlen.simps)
  next
    case False
    with 1 have ih: "2 ^ (bitlen (n div 2) - 1) \<le> n div 2" by simp
    from False have pos: "0 < bitlen (n div 2)" by (subst bitlen.simps) simp
    have "bitlen n = Suc (bitlen (n div 2))" using 1(2) by (subst bitlen.simps) simp
    then have "(2::nat) ^ (bitlen n - 1) = 2 * 2 ^ (bitlen (n div 2) - 1)"
      using pos by (cases "bitlen (n div 2)") simp_all
    also have "\<dots> \<le> 2 * (n div 2)" using ih by simp
    also have "\<dots> \<le> n" by simp
    finally show ?thesis .
  qed
qed

text \<open>Below \<open>2 ^ 53\<close> every natural number is a double; from there on rounding stays
  at or above \<open>2 ^ 53\<close>.\<close>

lemma toDouble_small: "n < 2 ^ 53 \<Longrightarrow> toDouble n = n"
  using bitlen_le [of n 53] by (simp add: toDouble_def Let_def)

lemma toDouble_large:
  assumes "2 ^ 53 \<le> m"
  shows "2 ^ 53 \<le> toDouble m"
proof -
  let ?b = "bitlen m"
  let ?u = "(2::nat) ^ (?b - 53)"
  let ?q = "m div ?u"
  from assms have b: "53 < ?b" by (rule bitlen_gt)
  from assms have "0 < m" by (simp add: less_le_trans [of 0 "2 ^ 53"])
  then have "(2::nat) ^ (?b - 1) \<le> m" by (rule bitlen_lower)
  moreover have "(2::nat) ^ (?b - 1) = 2 ^ 52 * ?u"
    using b by (simp only: power_add [symmetric]) simp
  ultimately have "(2::nat) ^ 52 * ?u \<le> m" by simp
  then have q: "2 ^ 52 \<le> ?q" by (simp add: less_eq_div_iff_mult_less_eq)
  have u: "2 \<le> ?u" using b self_le_power [of "2::nat" "?b - 53"] by simp
  have "(2::nat) ^ 53 = 2 ^ 52 * 2" by simp
  also have "\<dots> \<le> ?q * ?u" using q u by (rule mult_le_mono)
  finally have low: "2 ^ 53 \<le> ?q * ?u" .
  have "?q * ?u \<le> (?q + 1) * ?u" by simp
  with low have "2 ^ 53 \<le> (?q + 1) * ?u" by (rule le_trans)
  with low b show ?thesis by (simp add: toDouble_def Let_def)
qed

lemma shortest_from_small:
  assumes "n < 2 ^ 53" and "\<forall>u \<in> set us. 0 < u"
  shows "shortest_from n us = n"
  using assms(2)
proof (induction us)
  case Nil
  show ?case by simp
next
  case (Cons u us)
  then have u: "0 < u" and ih: "shortest_from n us = n" by simp_all
  let ?lo = "n div u * u"
  have lo: "?lo \<le> n" by simp
  then have "?lo < 2 ^ 53" using assms(1) by (rule le_less_trans)
  then have dlo: "toDouble ?lo = ?lo" by (rule toDouble_small)
  have hi: "n < ?lo + u" using dividend_less_div_times [OF u, of n] by (simp add: ac_simps)
  have dhi: "toDouble (?lo + u) \<noteq> n"
  proof (cases "?lo + u < 2 ^ 53")
    case True
    then show ?thesis using hi by (simp add: toDouble_small)
  next
    case False
    then have "2 ^ 53 \<le> toDouble (?lo + u)" by (intro toDouble_large) simp
    with assms(1) show ?thesis by simp
  qed
  show ?case
    by (simp only: shortest_from.simps Let_def dlo dhi ih) simp
qed

lemma shortest_small: "n < 2 ^ 53 \<Longrightarrow> shortest n = n"
  by (simp add: shortest_def shortest_from_small)

lemma length_decimal: "0 < k \<Longrightarrow> n < 10 ^ k \<Longrightarrow> length (decimal n) \<le> k"
proof (induction k arbitrary: n)
  case 0
  then show ?case by simp
next
  case (Suc k)
  show ?case
  proof (cases "n < 10")
    case True
    then show ?thesis by (subst decimal.simps) simp
  next
    case False
    with Suc.prems have "0 < k" by (cases k) simp_all
    moreover from Suc.prems have "n div 10 < 10 ^ k" by simp
    ultimately have "length (decimal (n div 10)) \<le> k" by (rule Suc.IH)
    with False show ?thesis by (subst decimal.simps) simp
  qed
qed

lemma render_small: "n < 10 ^ 21 \<Longrightarrow> render n = decimal n"
  using length_decimal [of 21 n] by (simp add: render_def Let_def)

lemma toString_small:
  assumes "n < 2 ^ 53"
  shows "toString n = decimal n"
proof -
  from assms have "n < 10 ^ 21" by simp
  then have "render n = decimal n" by (rule render_small)
  moreover from assms have "n < 2 ^ 1024" by simp
  ultimately show ?thesis
    using assms by (simp add: toString_def toDouble_small shortest_small Let_def)
qed

text \<open>The number \<^verbatim>\<open>1e36\<close>: the double nearest to \<open>10 ^ 36\<close> and how it prints.\<close>

lemma toDouble_10_36:
  "toDouble 1000000000000000000000000000000000000 = 1000000000000000042420637374017961984"
  by (simp add: toDouble_def Let_def bitlen.simps)

lemma decimal_10_36:
  "decimal 1000000000000000000000000000000000000 = ''1000000000000000000000000000000000000''"
  by (simp add: decimal.simps digit_def)

lemma length_decimal_double_10_36:
  "length (decimal 1000000000000000042420637374017961984) = 37"
  by (simp add: decimal.simps)

lemma shortest_10_36:
  "shortest 1000000000000000042420637374017961984 = 1000000000000000000000000000000000000"
  by (simp add: shortest_def length_decimal_double_10_36 toDouble_10_36 Let_def upt_conv_Cons)

lemma render_10_36: "render 1000000000000000000000000000000000000 = ''1e+36''"
  by (simp only: render_def decimal_10_36 Let_def) (simp add: decimal.simps digit_def)

lemma toString_10_36: "toString 1000000000000000000000000000000000000 = ''1e+36''"
  by (simp only: toString_def toDouble_10_36 Let_def shortest_10_36 render_10_36) simp

text \<open>
  C7 (refuted as stated): \<^verbatim>\<open>numberToWords(1e36)\<close> is \<^verbatim>\<open>'1e+36'\<close>, the exponent notation of
  \<^verbatim>\<open>Number.prototype.toString\<close>, and not the decimal digit string of \<open>10 ^ 36\<close>, a one
  followed by 36 zeros.
\<close>

theorem C7_exponent_counterexample:
  "numberToWords (10 ^ 36) = Inr ''1e+36''
   \<and> numberToWords (10 ^ 36) \<noteq> Inr (decimal (10 ^ 36))"
  by (simp add: numberToWords_def toString_10_36 decimal_10_36)

text \<open>
  C7 (amended): numbers at or beyond the ceiling degrade to the rendering of
  \<^verbatim>\<open>num.toString()\<close> and never raise an error. For every \<open>n \<ge> 10 ^ 36\<close>,
  \<^verbatim>\<open>numberToWords(n)\<close> returns \<^verbatim>\<open>n.toString()\<close>; for every \<open>n > 1999\<close> and every plural flag,
  \<^verbatim>\<open>numberToOrdinal(n, plural)\<close> returns \<^verbatim>\<open>n.toString()\<close> followed by \<^verbatim>\<open>'a'\<close>. The rendering
  is the decimal digit string of \<open>n\<close> for every \<open>n\<close> below \<open>2 ^ 53\<close>, so for these the
  ordinal is the digit string followed by \<^verbatim>\<open>'a'\<close>.
\<close>

theorem C7_degrades_to_toString:
  "(10 ^ 36 \<le> n \<longrightarrow> numberToWords n = Inr (toString n))
   \<and> (1999 < n \<longrightarrow> numberToOrdinal n plural = Some (toString n @ ''a''))
   \<and> (n < 2 ^ 53 \<longrightarrow> toString n = decimal n)
   \<and> (1999 < n \<and> n < 2 ^ 53 \<longrightarrow> numberToOrdinal n plural = Some (decimal n @ ''a''))"
proof (intro conjI impI)
  assume "10 ^ 36 \<le> n"
  moreover have "(0::nat) < 10 ^ 36" by simp
  ultimately have "0 < n" by (rule less_le_trans [rotated])
  with \<open>10 ^ 36 \<le> n\<close> show "numberToWords n = Inr (toString n)"
    by (simp add: numberToWords_def)
next
  assume "1999 < n"
  then show "numberToOrdinal n plural = Some (toString n @ ''a'')"
    by (simp add: numberToOrdinal_def run_above_ceiling)
next
  assume "n < 2 ^ 53"
  then show "toString n = decimal n" by (rule toString_small)
next
  assume "1999 < n \<and> n < 2 ^ 53"
  then show "numberToOrdinal n plural = Some (decimal n @ ''a'')"
    by (simp add: numberToOrdinal_def run_above_ceiling toString_small)
qed

theorem C7_degrades_to_toString_witness:
  "(10::nat) ^ 36 \<le> 10 ^ 36
   \<and> numberToWords (10 ^ 36) = Inr ''1e+36''
   \<and> (1999::nat) < 2000 \<and> (2000::nat) < 2 ^ 53
   \<and> numberToOrdinal 2000 True = Some ''2000a''"
  using C7_degrades_to_toString [of "10 ^ 36" True] C7_degrades_to_toString [of 2000 True]
  by (simp add: toString_10_36 decimal.simps digit_def)

subsection \<open>Fences\<close>

lemma fold_upd_map_of:
  "fold (\<lambda>(k, v) m. m(k \<mapsto> v)) entries m = m ++ map_of (rev entries)"
  by (induction entries arbitrary: m) (auto simp: map_add_def fun_eq_iff split: option.splits)

lemma js_Map_map_of: "js_Map entries = map_of (rev entries)"
  by (simp add: js_Map_def fold_upd_map_of)

lemma js_Map_distinct:
  assumes "distinct (map fst entries)"
  shows "js_Map entries k = Some v \<longleftrightarrow> (k, v) \<in> set entries"
proof -
  from assms have "distinct (map fst (rev entries))" by (simp add: rev_map [symmetric])
  then have "map_of (rev entries) k = Some v \<longleftrightarrow> (k, v) \<in> set (rev entries)"
    by (rule map_of_eq_Some_iff)
  then show ?thesis by (simp add: js_Map_map_of)
qed

lemma FencesHoriz_keys: "distinct (map fst FencesHoriz_entries)"
  by (simp add: FencesHoriz_entries_def)

lemma FencesVert_keys: "distinct (map fst FencesVert_entries)"
  by (simp add: FencesVert_entries_def)

lemma FencesHoriz_entry: "FencesHoriz k = Some v \<longleftrightarrow> (k, v) \<in> set FencesHoriz_entries"
  unfolding FencesHoriz_def by (rule js_Map_distinct [OF FencesHoriz_keys])

lemma FencesVert_entry: "FencesVert k = Some v \<longleftrightarrow> (k, v) \<in> set FencesVert_entries"
  unfolding FencesVert_def by (rule js_Map_distinct [OF FencesVert_keys])

text \<open>
  The fence tables at the neutral and metric fences: only \<open>U+23B8\<close> is a key, of the
  horizontal table, with \<open>U+23B9\<close> as its partner.
\<close>

lemma neutral_fence_cases:
  assumes "opening \<in> set neutralFences \<or> opening \<in> set metricFences"
  shows "opening \<in> {[0x7C], [0xA6], [0x2223], [0x23D0], [0x23B8], [0x23B9], [0x2758], [0xFF5C],
      [0xFFE4], [0xFE31], [0xFE32], [0xFE33], [0xFE34], [0xFFE8], [0x2016], [0x2225], [0x2980],
      [0x2AF4]}"
  using assms by (auto simp add: neutralFences_def metricFences_def)

lemma neutral_fence_tables:
  assumes "opening \<in> set neutralFences \<or> opening \<in> set metricFences"
  shows "(opening, closing) \<notin> set FencesVert_entries"
    and "(opening, closing) \<in> set FencesHoriz_entries \<longleftrightarrow> opening = [0x23B8] \<and> closing = [0x23B9]"
  using neutral_fence_cases [OF assms]
  apply (simp_all only: insert_iff empty_iff)
  apply (elim disjE; simp add: FencesVert_entries_def)
  apply (elim disjE; simp add: FencesHoriz_entries_def)
  done

lemma left_box_line_neutral: "[0x23B8] \<in> set neutralFences"
  by (simp add: neutralFences_def)

text \<open>
  C1 (refuted as stated): the pair \<open>(U+23B8, U+23B9)\<close>, left and right vertical box
  line, is an entry of \<^verbatim>\<open>FencesHoriz\<close>, but \<^verbatim>\<open>isMatchingFence\<close> returns false on it, since
  \<open>U+23B8\<close> is also a member of \<^verbatim>\<open>neutralFences\<close>.
\<close>

theorem C1_box_lines_counterexample:
  "\<not> (isMatchingFence [0x23B8] [0x23B9] \<longleftrightarrow> fencesMatch_spec [0x23B8] [0x23B9])"
  by (simp add: isMatchingFence_def fencesMatch_spec_def left_box_line_neutral
      FencesHoriz_entry neutral_fence_tables)

text \<open>
  C1 (amended): \<^verbatim>\<open>isMatchingFence(open, close)\<close> is true if and only if the pair is an
  entry of the horizontal or of the vertical table, or both are the same neutral or
  metric fence, except that it is false on the entry \<open>(U+23B8, U+23B9)\<close> of the
  horizontal table. In particular it is true on \<^verbatim>\<open>(\<close> and \<^verbatim>\<open>)\<close>, false on \<^verbatim>\<open>(\<close> and \<^verbatim>\<open>}\<close>,
  true on \<^verbatim>\<open>|\<close> and \<^verbatim>\<open>|\<close>.
\<close>

theorem C1_isMatchingFence:
  "(isMatchingFence opening closing \<longleftrightarrow>
      fencesMatch_spec opening closing \<and> (opening, closing) \<noteq> ([0x23B8], [0x23B9]))
   \<and> isMatchingFence [0x28] [0x29]
   \<and> \<not> isMatchingFence [0x28] [0x7D]
   \<and> isMatchingFence [0x7C] [0x7C]"
proof (intro conjI)
  show "isMatchingFence opening closing \<longleftrightarrow>
      fencesMatch_spec opening closing \<and> (opening, closing) \<noteq> ([0x23B8], [0x23B9])"
  proof (cases "opening \<in> set neutralFences \<or> opening \<in> set metricFences")
    case True
    then show ?thesis
      by (auto simp add: isMatchingFence_def fencesMatch_spec_def FencesHoriz_entry
          FencesVert_entry neutral_fence_tables)
  next
    case False
    then have "opening \<noteq> [0x23B8]" using left_box_line_neutral by auto
    with False show ?thesis
      by (simp add: isMatchingFence_def fencesMatch_spec_def)
  qed
  have paren: "[0x28] \<notin> set neutralFences" "[0x28] \<notin> set metricFences"
    by (simp_all add: neutralFences_def metricFences_def)
  show "isMatchingFence [0x28] [0x29]"
    using paren
    by (simp add: isMatchingFence_def FencesHoriz_entry) (simp add: FencesHoriz_entries_def)
  show "\<not> isMatchingFence [0x28] [0x7D]"
    using paren
    by (simp add: isMatchingFence_def FencesHoriz_entry FencesVert_entry)
       (simp add: FencesHoriz_entries_def FencesVert_entries_def)
  show "isMatchingFence [0x7C] [0x7C]"
    by (simp add: isMatchingFence_def neutralFences_def)
qed

subsection \<open>Initialisation of the meanings\<close>

lemma last_group_meaning_Nil: "last_group_meaning [] g = None"
  by (simp add: last_group_meaning_def)

lemma last_group_meaning_filter:
  "last_group_meaning groups g =
     (if filter (\<lambda>grp. g \<in> set (fst grp)) groups = [] then None
      else Some (snd (last (filter (\<lambda>grp. g \<in> set (fst grp)) groups))))"
  by (simp add: last_group_meaning_def split: list.splits)

lemma last_group_meaning_append:
  "last_group_meaning (gs1 @ gs2) g =
     (case last_group_meaning gs2 g of
        None \<Rightarrow> last_group_meaning gs1 g
      | Some meaning \<Rightarrow> Some meaning)"
  by (simp add: last_group_meaning_filter)

lemma last_group_meaning_single:
  "last_group_meaning [(xs, meaning)] g = (if g \<in> set xs then Some meaning else None)"
  by (simp add: last_group_meaning_def)

lemma overlay_Nil: "overlay [] m = m"
  by (simp add: overlay_def fun_eq_iff last_group_meaning_Nil)

lemma overlay_append: "overlay (gs1 @ gs2) m = overlay gs2 (overlay gs1 m)"
  by (simp add: overlay_def fun_eq_iff last_group_meaning_append split: option.splits)

lemma overlay_single:
  "overlay [(xs, meaning)] m = (\<lambda>g. if g \<in> set xs then Some meaning else m g)"
  by (simp add: overlay_def fun_eq_iff last_group_meaning_single)

lemma overlay_Cons: "overlay (grp # gs) m = overlay gs (overlay [grp] m)"
  using overlay_append [of "[grp]" gs m] by simp

lemma overlay_empty: "overlay gs Map.empty = last_group_meaning gs"
  by (simp add: overlay_def fun_eq_iff split: option.splits)

text \<open>Writes to \<^verbatim>\<open>Secondary\<close> leave \<^verbatim>\<open>Meaning\<close> as it is.\<close>

lemma Meaning_Secondary_set [simp]: "Meaning (Secondary_set x kind reg) = Meaning reg"
  by (simp add: Secondary_set_def)

lemma Meaning_fold_Secondary_set [simp]:
  "Meaning (fold (Secondary_set x) kinds reg) = Meaning reg"
  by (induction kinds arbitrary: reg) simp_all

lemma Meaning_Meaning_set [simp]:
  "Meaning (Meaning_set x meaning reg) = (Meaning reg)(x \<mapsto> meaning)"
  by (simp add: Meaning_set_def)

lemma Meaning_addSecondaries [simp]:
  "Meaning (addSecondaries alphabet change reg) = Meaning reg"
  unfolding addSecondaries_def
  by (induction change arbitrary: reg) (auto split: option.splits)

text \<open>A group of the table.\<close>

lemma Meaning_initMeaning_symbol [simp]:
  "Meaning (initMeaning_symbol st x reg) = (Meaning reg)(x \<mapsto> group_meaning st)"
  by (simp add: initMeaning_symbol_def Let_def split: option.splits)

lemma Meaning_initMeaning_group:
  "Meaning (fold (initMeaning_symbol st) xs reg) =
     overlay [(xs, group_meaning st)] (Meaning reg)"
  by (induction xs arbitrary: reg) (auto simp add: overlay_single fun_eq_iff)

lemma Meaning_initMeaning:
  "Meaning (initMeaning symbolSetToSemantic reg) =
     overlay (table_groups symbolSetToSemantic) (Meaning reg)"
proof (induction symbolSetToSemantic arbitrary: reg)
  case Nil
  show ?case by (simp add: initMeaning_def table_groups_def overlay_Nil)
next
  case (Cons st sts)
  have "Meaning (initMeaning (st # sts) reg) =
          Meaning (initMeaning sts (fold (initMeaning_symbol st) (st_set st) reg))"
    by (simp add: initMeaning_def)
  also have "\<dots> = overlay (table_groups sts)
                     (overlay [(st_set st, group_meaning st)] (Meaning reg))"
    by (simp only: Cons.IH Meaning_initMeaning_group)
  also have "\<dots> = overlay (table_groups (st # sts)) (Meaning reg)"
    by (simp add: table_groups_def overlay_Cons [symmetric])
  finally show ?case .
qed

text \<open>An alphabet.\<close>

lemma Meaning_alphabet_fold:
  "Meaning (fold (\<lambda>x reg. fold (Secondary_set x) secondaries (Meaning_set x meaning reg))
              unicode reg) =
     overlay [(unicode, meaning)] (Meaning reg)"
  by (induction unicode arbitrary: reg) (auto simp add: overlay_single fun_eq_iff)

lemma Meaning_changeSemantics:
  "Meaning (changeSemantics alphabet change reg) =
     overlay (override_groups alphabet change) (Meaning reg)"
proof (induction change arbitrary: reg)
  case Nil
  show ?case by (simp add: changeSemantics_def override_groups_def overlay_Nil)
next
  case (Cons c change)
  obtain pos meaning where c: "c = (pos, meaning)" by (cases c)
  let ?reg = "case js_index alphabet (int pos) of
                None \<Rightarrow> reg | Some character \<Rightarrow> Meaning_set character meaning reg"
  have step: "Meaning ?reg =
      overlay (if pos < length alphabet then [([alphabet ! pos], meaning)] else []) (Meaning reg)"
    by (auto simp add: js_index_def overlay_single overlay_Nil fun_eq_iff)
  have "changeSemantics alphabet (c # change) reg = changeSemantics alphabet change ?reg"
    by (simp add: changeSemantics_def c)
  then have "Meaning (changeSemantics alphabet (c # change) reg) =
      overlay (override_groups alphabet change) (Meaning ?reg)"
    by (simp only: Cons.IH)
  also have "\<dots> = overlay (override_groups alphabet (c # change)) (Meaning reg)"
    by (simp only: step) (simp add: override_groups_def c overlay_append)
  finally show ?case .
qed

lemma Meaning_singleAlphabet:
  "Meaning (singleAlphabet env alphabet ty rl fnt semfont secondaries change secondary reg) =
     overlay (alphabet_groups env alphabet \<lparr>type = ty, role = rl, font = semfont\<rparr> fnt change)
       (Meaning reg)"
proof (cases "INTERVALS env alphabet fnt")
  case None
  then show ?thesis by (simp add: singleAlphabet_def alphabet_groups_def overlay_Nil)
next
  case (Some unicode)
  then show ?thesis
    by (simp add: singleAlphabet_def alphabet_groups_def Meaning_changeSemantics
        Meaning_alphabet_fold overlay_Cons [symmetric])
qed

lemma Meaning_alphabets_font:
  "Meaning (alphabets_font env entry reg) = overlay (font_groups env entry) (Meaning reg)"
  by (simp add: alphabets_font_def font_groups_def Let_def Meaning_singleAlphabet
      overlay_append)

lemma Meaning_alphabets_fold:
  "Meaning (fold (alphabets_font env) entries reg) =
     overlay (concat (map (font_groups env) entries)) (Meaning reg)"
  by (induction entries arbitrary: reg)
     (simp_all add: overlay_Nil overlay_append Meaning_alphabets_font)

lemma Meaning_SemanticMap:
  "Meaning (SemanticMap env symbolSetToSemantic) =
     last_group_meaning (processed_groups env symbolSetToSemantic)"
proof -
  let ?table = "table_groups symbolSetToSemantic"
  let ?alpha = "concat (map (font_groups env) (fonts env))"
  have "Meaning (SemanticMap env symbolSetToSemantic) = overlay ?alpha (overlay ?table Map.empty)"
    by (simp add: SemanticMap_def alphabets_def Meaning_alphabets_fold Meaning_initMeaning
        empty_registry_def)
  also have "\<dots> = overlay (?table @ ?alpha) Map.empty"
    by (simp only: overlay_append)
  also have "\<dots> = last_group_meaning (processed_groups env symbolSetToSemantic)"
    by (simp only: overlay_empty processed_groups_def)
  finally show ?thesis .
qed

lemma last_group_meaning_last:
  assumes "groups = before @ (xs, meaning) # after" and "g \<in> set xs"
    and "\<forall>grp \<in> set after. g \<notin> set (fst grp)"
  shows "last_group_meaning groups g = Some meaning"
proof -
  from assms(3) have "filter (\<lambda>grp. g \<in> set (fst grp)) after = []"
    by (simp add: filter_empty_conv)
  with assms(1,2) show ?thesis
    by (simp add: last_group_meaning_filter)
qed

lemma last_group_meaning_none:
  assumes "\<forall>grp \<in> set groups. g \<notin> set (fst grp)"
  shows "last_group_meaning groups g = None"
proof -
  from assms have "filter (\<lambda>grp. g \<in> set (fst grp)) groups = []"
    by (simp add: filter_empty_conv)
  then show ?thesis by (simp add: last_group_meaning_filter)
qed

lemmas registry_eval =
  processed_groups_def table_groups_def font_groups_def alphabet_groups_def
  override_groups_def greek_change_def semfont_of_def group_meaning_def Let_def

text \<open>
  C2: for every string that was never registered, that is, a string that is no key of
  the meaning map, and in particular a string that occurs in no group processed by the
  initialisation, \<^verbatim>\<open>SemanticMap.Meaning.get\<close> returns the triple of \<^verbatim>\<open>UNKNOWN\<close> values. The
  lookup is a total function; it has no failing branch.
\<close>

theorem C2_unregistered_unknown:
  "(Meaning reg g = None \<longrightarrow>
      meaningMap_get reg g = \<lparr>type = Type_UNKNOWN, role = Role_UNKNOWN, font = Font_UNKNOWN\<rparr>)
   \<and> ((\<forall>grp \<in> set (processed_groups env symbolSetToSemantic). g \<notin> set (fst grp)) \<longrightarrow>
      meaningMap_get (SemanticMap env symbolSetToSemantic) g =
        \<lparr>type = Type_UNKNOWN, role = Role_UNKNOWN, font = Font_UNKNOWN\<rparr>)"
  by (simp add: meaningMap_get_def unknown_meaning_def Meaning_SemanticMap
      last_group_meaning_none)

theorem C2_unregistered_unknown_witness:
  "Meaning empty_registry [0x41] = None
   \<and> meaningMap_get empty_registry [0x41] =
       \<lparr>type = Type_UNKNOWN, role = Role_UNKNOWN, font = Font_UNKNOWN\<rparr>
   \<and> meaningMap_get (SemanticMap
          \<lparr>fonts = [([0x6E], NORMAL)], Embellish = (\<lambda>name. False),
           INTERVALS = (\<lambda>b f. if b = GREEKSMALL then Some [[0x3B1], [0x3B2]] else None)\<rparr>
          [\<lparr>st_set = [[0x2B], [0x2D]], st_role = Role_UNKNOWN, st_type = OPERATOR,
            st_font = None, st_secondary = None\<rparr>]) [0x41] =
       \<lparr>type = Type_UNKNOWN, role = Role_UNKNOWN, font = Font_UNKNOWN\<rparr>"
  using C2_unregistered_unknown [of empty_registry "[0x41]"
      "\<lparr>fonts = [([0x6E], NORMAL)], Embellish = (\<lambda>name. False),
        INTERVALS = (\<lambda>b f. if b = GREEKSMALL then Some [[0x3B1], [0x3B2]] else None)\<rparr>"
      "[\<lparr>st_set = [[0x2B], [0x2D]], st_role = Role_UNKNOWN, st_type = OPERATOR,
         st_font = None, st_secondary = None\<rparr>]"]
  by (simp add: empty_registry_def registry_eval)

text \<open>
  C5: the initialisation processes the groups of \<^verbatim>\<open>symbolSetToSemantic_\<close> in array order
  and then the alphabets, each write replacing an earlier one: the meaning stored for a
  glyph is the meaning of the last processed group that contains it, and a glyph of no
  group has no entry. So a positional override of lowercase Greek, processed after
  its alphabet, replaces the identifier meaning that the alphabet assigned.
\<close>

theorem C5_last_group_wins:
  "Meaning (SemanticMap env symbolSetToSemantic) g =
     last_group_meaning (processed_groups env symbolSetToSemantic) g
   \<and> (processed_groups env symbolSetToSemantic = before @ (xs, meaning) # after
        \<and> g \<in> set xs \<and> (\<forall>grp \<in> set after. g \<notin> set (fst grp))
      \<longrightarrow> Meaning (SemanticMap env symbolSetToSemantic) g = Some meaning)"
  by (auto simp add: Meaning_SemanticMap last_group_meaning_last)

theorem C5_last_group_wins_witness:
  "processed_groups
      \<lparr>fonts = [([0x6E], NORMAL)], Embellish = (\<lambda>name. False),
       INTERVALS = (\<lambda>b f. if b = GREEKSMALL then Some [[0x3B1], [0x3B2]] else None)\<rparr>
      [\<lparr>st_set = [[0x2B], [0x3B1]], st_role = Role_UNKNOWN, st_type = OPERATOR,
        st_font = None, st_secondary = None\<rparr>]
     = [([[0x2B], [0x3B1]], \<lparr>type = OPERATOR, role = Role_UNKNOWN, font = Font_UNKNOWN\<rparr>),
        ([[0x3B1], [0x3B2]], \<lparr>type = IDENTIFIER, role = GREEKLETTER, font = NORMAL\<rparr>)]
       @ ([[0x3B1]], \<lparr>type = OPERATOR, role = PREFIXOP, font = NORMAL\<rparr>) # []
   \<and> Meaning (SemanticMap
      \<lparr>fonts = [([0x6E], NORMAL)], Embellish = (\<lambda>name. False),
       INTERVALS = (\<lambda>b f. if b = GREEKSMALL then Some [[0x3B1], [0x3B2]] else None)\<rparr>
      [\<lparr>st_set = [[0x2B], [0x3B1]], st_role = Role_UNKNOWN, st_type = OPERATOR,
        st_font = None, st_secondary = None\<rparr>]) [0x3B1]
     = Some \<lparr>type = OPERATOR, role = PREFIXOP, font = NORMAL\<rparr>"
  using C5_last_group_wins [of
      "\<lparr>fonts = [([0x6E], NORMAL)], Embellish = (\<lambda>name. False),
        INTERVALS = (\<lambda>b f. if b = GREEKSMALL then Some [[0x3B1], [0x3B2]] else None)\<rparr>"
      "[\<lparr>st_set = [[0x2B], [0x3B1]], st_role = Role_UNKNOWN, st_type = OPERATOR,
         st_font = None, st_secondary = None\<rparr>]"
      "[0x3B1]"
      "[([[0x2B], [0x3B1]], \<lparr>type = OPERATOR, role = Role_UNKNOWN, font = Font_UNKNOWN\<rparr>),
        ([[0x3B1], [0x3B2]], \<lparr>type = IDENTIFIER, role = GREEKLETTER, font = NORMAL\<rparr>)]"
      "[[0x3B1]]" "\<lparr>type = OPERATOR, role = PREFIXOP, font = NORMAL\<rparr>" "[]"]
  by (simp add: registry_eval last_group_meaning_def)

subsection \<open>Annotation\<close>

lemma map_of_assign: "map_of (assign k v ps) k = Some v"
  by (induction ps) auto

lemma assign_assign: "assign k v (assign k w ps) = assign k v ps"
  by (induction ps) auto

lemma getAnnotation_addAnnotation:
  "getAnnotation domain (addAnnotation domain a node) = Some a"
  by (cases node) (simp add: getAnnotation_def map_of_assign)

lemma childNodes_addAnnotation: "childNodes (addAnnotation domain a node) = childNodes node"
  by (cases node) simp

lemma annotate_node:
  "annotate domain func (SemanticNode i t m an cs) =
     SemanticNode i t m
       (assign domain (func (SemanticNode i t m an (map (annotate domain func) cs))) an)
       (map (annotate domain func) cs)"
  by (simp add: Let_def)

text \<open>
  Re-annotation changes nothing when the function does not look at the annotation that
  the node itself carries for the domain.
\<close>

lemma annotate_idempotent:
  assumes "\<And>i t m an cs v.
      func (SemanticNode i t m (assign domain v an) cs) = func (SemanticNode i t m an cs)"
  shows "annotate domain func (annotate domain func node) = annotate domain func node"
proof (induction node)
  case (SemanticNode i t m an cs)
  let ?cs = "map (annotate domain func) cs"
  let ?v = "func (SemanticNode i t m an ?cs)"
  have again: "map (annotate domain func) ?cs = ?cs"
    using SemanticNode.IH by (simp add: map_idI)
  have "annotate domain func (annotate domain func (SemanticNode i t m an cs)) =
        annotate domain func (SemanticNode i t m (assign domain ?v an) ?cs)"
    by (simp only: annotate_node)
  also have "\<dots> = SemanticNode i t m
      (assign domain (func (SemanticNode i t m (assign domain ?v an) ?cs)) (assign domain ?v an))
      ?cs"
    by (simp only: annotate_node again)
  also have "\<dots> = SemanticNode i t m (assign domain ?v an) ?cs"
    by (simp only: assms assign_assign)
  also have "\<dots> = annotate domain func (SemanticNode i t m an cs)"
    by (simp only: annotate_node)
  finally show ?case .
qed

text \<open>
  C8 (refuted as stated): an annotation function that counts on the annotation the node
  already carries is a deterministic function of the node, and the second run assigns
  the leaf another value than the first.
\<close>

theorem C8_second_run_counterexample:
  "getAnnotation ''d''
     (annotate ''d'' (\<lambda>n. case getAnnotation ''d'' n of None \<Rightarrow> 0 | Some k \<Rightarrow> Suc k)
       (annotate ''d'' (\<lambda>n. case getAnnotation ''d'' n of None \<Rightarrow> 0 | Some k \<Rightarrow> Suc k)
         (SemanticNode 0 [] unknown_meaning [] [])))
   \<noteq> getAnnotation ''d''
       (annotate ''d'' (\<lambda>n. case getAnnotation ''d'' n of None \<Rightarrow> 0 | Some k \<Rightarrow> Suc k)
         (SemanticNode 0 [] unknown_meaning [] []))"
  by (simp add: getAnnotation_def)

text \<open>
  C8 (amended): for every finite tree and every annotator whose function does not
  depend on the annotation that the node itself already carries for the annotator's
  domain, a second run of \<^verbatim>\<open>annotate\<close> leaves the tree as the first run left it, so every
  node keeps the annotation value of the first run; and \<^verbatim>\<open>annotate\<close> processes all
  children of a node before it computes the node's own annotation, from the node with
  its annotated children.
\<close>

theorem C8_annotate_idempotent:
  assumes "\<forall>i t m an cs v.
      func (SemanticNode i t m (assign domain v an) cs) = func (SemanticNode i t m an cs)"
  shows "annotate domain func (annotate domain func node) = annotate domain func node
    \<and> childNodes (annotate domain func node) = map (annotate domain func) (childNodes node)
    \<and> getAnnotation domain (annotate domain func node) =
        Some (func (SemanticNode (node_id node) (textContent node) (node_meaning node)
                (annotation node) (map (annotate domain func) (childNodes node))))"
proof (intro conjI)
  show "annotate domain func (annotate domain func node) = annotate domain func node"
    using assms by (intro annotate_idempotent) simp
  show "childNodes (annotate domain func node) = map (annotate domain func) (childNodes node)"
    by (cases node) (simp add: annotate_node)
  show "getAnnotation domain (annotate domain func node) =
        Some (func (SemanticNode (node_id node) (textContent node) (node_meaning node)
                (annotation node) (map (annotate domain func) (childNodes node))))"
    by (cases node) (simp add: annotate_node getAnnotation_def map_of_assign)
qed

theorem C8_annotate_idempotent_witness:
  "(\<forall>i t m an cs v.
      length (childNodes (SemanticNode i t m (assign ''size'' v an) cs)) =
      length (childNodes (SemanticNode i t m an cs)))
   \<and> annotate ''size'' (\<lambda>n. length (childNodes n))
       (annotate ''size'' (\<lambda>n. length (childNodes n))
         (SemanticNode 0 ''+'' unknown_meaning []
           [SemanticNode 1 ''a'' unknown_meaning [] [],
            SemanticNode 2 ''b'' unknown_meaning [(''size'', 7)] []]))
     = SemanticNode 0 ''+'' unknown_meaning [(''size'', 2)]
         [SemanticNode 1 ''a'' unknown_meaning [(''size'', 0)] [],
          SemanticNode 2 ''b'' unknown_meaning [(''size'', 0)] []]"
  using C8_annotate_idempotent [of "\<lambda>n. length (childNodes n)" "''size''"
      "SemanticNode 0 ''+'' unknown_meaning []
         [SemanticNode 1 ''a'' unknown_meaning [] [],
          SemanticNode 2 ''b'' unknown_meaning [(''size'', 7)] []]"]
  by simp

subsection \<open>Visiting\<close>

lemma visit_children_result:
  "snd (visit_children domain func cs result) =
     foldl (\<lambda>r child. snd (visit domain func child (snd r))) result cs"
  by (induction cs arbitrary: result) (simp_all add: split_def Let_def)

lemma visit_result:
  "snd (visit domain func node info) =
     foldl (\<lambda>r child. snd (visit domain func child (snd r))) (func node info) (childNodes node)"
  by (cases node) (simp add: split_def Let_def visit_children_result)

lemma visit_annotation:
  "getAnnotation domain (fst (visit domain func node info)) = Some (fst (func node info))"
  by (cases node) (simp add: split_def Let_def getAnnotation_def map_of_assign)

text \<open>
  C4 (refuted as stated): on a node without children \<^verbatim>\<open>visit\<close> returns the pair that the
  function returned, whose information component need not be the input information.
\<close>

theorem C4_leaf_counterexample:
  "snd (visit ''d'' (\<lambda>n k. (True, Suc k)) (SemanticNode 0 [] unknown_meaning [] []) 0)
     = (True, 1)
   \<and> snd (snd (visit ''d'' (\<lambda>n k. (True, Suc k)) (SemanticNode 0 [] unknown_meaning [] []) 0))
     \<noteq> 0"
  by simp

text \<open>
  C4 (amended): \<^verbatim>\<open>visit\<close> assigns the node's annotation from the first component of
  \<^verbatim>\<open>func(node, info)\<close>, then recurses into the children in child order, each child
  receiving the second component of the result before it, and returns the result of
  recursing into the last child; if the node has no children, it returns
  \<^verbatim>\<open>func(node, info)\<close>.
\<close>

theorem C4_visit:
  "getAnnotation domain (fst (visit domain func node info)) = Some (fst (func node info))
   \<and> snd (visit domain func node info) =
       foldl (\<lambda>r child. snd (visit domain func child (snd r))) (func node info)
         (childNodes node)
   \<and> (childNodes node = [] \<longrightarrow> snd (visit domain func node info) = func node info)
   \<and> (childNodes node \<noteq> [] \<longrightarrow>
        snd (visit domain func node info) =
          snd (visit domain func (last (childNodes node))
                (snd (foldl (\<lambda>r child. snd (visit domain func child (snd r))) (func node info)
                       (butlast (childNodes node))))))"
proof (intro conjI impI)
  show "getAnnotation domain (fst (visit domain func node info)) = Some (fst (func node info))"
    by (rule visit_annotation)
  show "snd (visit domain func node info) =
       foldl (\<lambda>r child. snd (visit domain func child (snd r))) (func node info)
         (childNodes node)"
    by (rule visit_result)
next
  assume "childNodes node = []"
  then show "snd (visit domain func node info) = func node info"
    by (subst visit_result) simp
next
  assume ne: "childNodes node \<noteq> []"
  let ?F = "\<lambda>r child. snd (visit domain func child (snd r))"
  have "foldl ?F (func node info) (butlast (childNodes node) @ [last (childNodes node)]) =
        ?F (foldl ?F (func node info) (butlast (childNodes node))) (last (childNodes node))"
    by (simp only: foldl_append foldl.simps)
  then have step: "foldl ?F (func node info) (childNodes node) =
        ?F (foldl ?F (func node info) (butlast (childNodes node))) (last (childNodes node))"
    by (simp only: append_butlast_last_id [OF ne])
  have "snd (visit domain func node info) = foldl ?F (func node info) (childNodes node)"
    by (rule visit_result)
  also note step
  finally show "snd (visit domain func node info) =
          snd (visit domain func (last (childNodes node))
                (snd (foldl (\<lambda>r child. snd (visit domain func child (snd r))) (func node info)
                       (butlast (childNodes node)))))" .
qed

theorem C4_visit_witness:
  "childNodes (SemanticNode 1 ''a'' unknown_meaning [] []) = []
   \<and> snd (visit ''d'' (\<lambda>n k. (k, Suc k)) (SemanticNode 1 ''a'' unknown_meaning [] []) 5) = (5, 6)
   \<and> childNodes (SemanticNode 0 ''+'' unknown_meaning []
        [SemanticNode 1 ''a'' unknown_meaning [] [],
         SemanticNode 2 ''b'' unknown_meaning [] []]) \<noteq> []
   \<and> snd (visit ''d'' (\<lambda>n k. (k, Suc k))
        (SemanticNode 0 ''+'' unknown_meaning []
          [SemanticNode 1 ''a'' unknown_meaning [] [],
           SemanticNode 2 ''b'' unknown_meaning [] []]) 0) = (2, 3)
   \<and> fst (visit ''d'' (\<lambda>n k. (k, Suc k))
        (SemanticNode 0 ''+'' unknown_meaning []
          [SemanticNode 1 ''a'' unknown_meaning [] [],
           SemanticNode 2 ''b'' unknown_meaning [] []]) 0)
      = SemanticNode 0 ''+'' unknown_meaning [(''d'', 0)]
          [SemanticNode 1 ''a'' unknown_meaning [(''d'', 1)] [],
           SemanticNode 2 ''b'' unknown_meaning [(''d'', 2)] []]"
  using C4_visit [of "''d''" "\<lambda>n k. (k, Suc k)" "SemanticNode 1 ''a'' unknown_meaning [] []" 5]
    C4_visit [of "''d''" "\<lambda>n k. (k, Suc k)"
      "SemanticNode 0 ''+'' unknown_meaning []
          [SemanticNode 1 ''a'' unknown_meaning [] [],
           SemanticNode 2 ''b'' unknown_meaning [] []]" 0]
  by simp

end
